theory Spec2Isabelle
  imports Complex_Main
begin

section \<open>Python values, dictionaries and exceptions\<close>

text \<open>
  The pipeline passes transaction records around as Python dictionaries whose values
  have any JSON-like shape. Strings are lists of 8-bit characters; character classes and
  case conversion are those of Python on ASCII text. A finite float is idealised as the
  rational number it denotes; the special floats are kept apart.
  Python names that start with an underscore lose it here
  (\<open>_extract_receiver\<close> is \<open>extract_receiver\<close>).
\<close>

datatype pyfloat = Fin rat | PosInf | NegInf | NaN

datatype pyval =
    VNone
  | VBool bool
  | VInt int
  | VFloat pyfloat
  | VStr string
  | VList "pyval list"
  | VDict "(string \<times> pyval) list"

type_synonym pydict = "(string \<times> pyval) list"

datatype exn_kind = AttributeError | TypeError | ValueError | KeyError | InvalidOperation
  | ParseError | FileNotFoundError

datatype exn = Exn exn_kind string

fun py_truthy :: "pyval \<Rightarrow> bool" where
  "py_truthy VNone = False"
| "py_truthy (VBool b) = b"
| "py_truthy (VInt i) = (i \<noteq> 0)"
| "py_truthy (VFloat (Fin r)) = (r \<noteq> 0)"
| "py_truthy (VFloat _) = True"
| "py_truthy (VStr s) = (s \<noteq> [])"
| "py_truthy (VList xs) = (xs \<noteq> [])"
| "py_truthy (VDict d) = (d \<noteq> [])"

fun py_type_name :: "pyval \<Rightarrow> string" where
  "py_type_name VNone = ''NoneType''"
| "py_type_name (VBool _) = ''bool''"
| "py_type_name (VInt _) = ''int''"
| "py_type_name (VFloat _) = ''float''"
| "py_type_name (VStr _) = ''str''"
| "py_type_name (VList _) = ''list''"
| "py_type_name (VDict _) = ''dict''"

text \<open>\<open>d[k] = v\<close>: an existing key keeps its place, a new key goes to the end.\<close>

fun dict_set :: "('k \<times> 'v) list \<Rightarrow> 'k \<Rightarrow> 'v \<Rightarrow> ('k \<times> 'v) list" where
  "dict_set [] k v = [(k, v)]"
| "dict_set ((k', v') # d) k v = (if k' = k then (k, v) # d else (k', v') # dict_set d k v)"

definition dict_get :: "pydict \<Rightarrow> string \<Rightarrow> pyval \<Rightarrow> pyval" where
  "dict_get d k dflt = (case map_of d k of None \<Rightarrow> dflt | Some v \<Rightarrow> v)"

text \<open>Numbers as Python compares them: \<open>bool\<close> is an \<open>int\<close>; anything else is no number.\<close>

fun num_of :: "pyval \<Rightarrow> pyfloat option" where
  "num_of (VBool b) = Some (Fin (if b then 1 else 0))"
| "num_of (VInt i) = Some (Fin (of_int i))"
| "num_of (VFloat f) = Some f"
| "num_of _ = None"

fun fl_less :: "pyfloat \<Rightarrow> pyfloat \<Rightarrow> bool" where
  "fl_less NaN _ = False"
| "fl_less _ NaN = False"
| "fl_less (Fin a) (Fin b) = (a < b)"
| "fl_less (Fin a) PosInf = True"
| "fl_less (Fin a) NegInf = False"
| "fl_less PosInf _ = False"
| "fl_less NegInf NegInf = False"
| "fl_less NegInf _ = True"

fun fl_le :: "pyfloat \<Rightarrow> pyfloat \<Rightarrow> bool" where
  "fl_le NaN _ = False"
| "fl_le _ NaN = False"
| "fl_le a b = (a = b \<or> fl_less a b)"

definition cmp_error :: "string \<Rightarrow> pyval \<Rightarrow> exn" where
  "cmp_error opr v = Exn TypeError
     (opr @ '' not supported between instances of '' @ py_type_name v @ '' and int'')"

definition py_lt_int :: "pyval \<Rightarrow> int \<Rightarrow> exn + bool" where
  "py_lt_int v c = (case num_of v of None \<Rightarrow> Inl (cmp_error ''<'' v)
                    | Some f \<Rightarrow> Inr (fl_less f (Fin (of_int c))))"

definition py_le_int :: "pyval \<Rightarrow> int \<Rightarrow> exn + bool" where
  "py_le_int v c = (case num_of v of None \<Rightarrow> Inl (cmp_error ''<='' v)
                    | Some f \<Rightarrow> Inr (fl_le f (Fin (of_int c))))"

definition py_ge_int :: "pyval \<Rightarrow> int \<Rightarrow> exn + bool" where
  "py_ge_int v c = (case num_of v of None \<Rightarrow> Inl (cmp_error ''>='' v)
                    | Some f \<Rightarrow> Inr (fl_le (Fin (of_int c)) f))"

section \<open>Strings\<close>

definition py_isspace :: "char \<Rightarrow> bool" where
  "py_isspace c = (c \<in> set [CHR 0x09, CHR 0x0A, CHR 0x0B, CHR 0x0C, CHR 0x0D,
                              CHR 0x1C, CHR 0x1D, CHR 0x1E, CHR 0x1F, CHR '' ''])"

definition py_strip :: "string \<Rightarrow> string" where
  "py_strip s = rev (dropWhile py_isspace (rev (dropWhile py_isspace s)))"

definition is_digit :: "char \<Rightarrow> bool" where
  "is_digit c = (48 \<le> (of_char c :: nat) \<and> (of_char c :: nat) \<le> 57)"

definition is_upper :: "char \<Rightarrow> bool" where
  "is_upper c = (65 \<le> (of_char c :: nat) \<and> (of_char c :: nat) \<le> 90)"

definition is_lower :: "char \<Rightarrow> bool" where
  "is_lower c = (97 \<le> (of_char c :: nat) \<and> (of_char c :: nat) \<le> 122)"

definition lower_char :: "char \<Rightarrow> char" where
  "lower_char c = (if is_upper c then char_of (of_char c + (32::nat)) else c)"

definition upper_char :: "char \<Rightarrow> char" where
  "upper_char c = (if is_lower c then char_of (of_char c - (32::nat)) else c)"

definition py_lower :: "string \<Rightarrow> string" where
  "py_lower s = map lower_char s"

definition py_upper :: "string \<Rightarrow> string" where
  "py_upper s = map upper_char s"

section \<open>Record discovery: the alias lookups of the ETL parser\<close>

text \<open>
  \<open>for f in fields: if f in raw_data and raw_data[f]: return ...\<close>:
  the first alias that is present with a truthy value.
\<close>

fun first_alias :: "pydict \<Rightarrow> string list \<Rightarrow> string option" where
  "first_alias raw [] = None"
| "first_alias raw (f # fs) =
     (case map_of raw f of
        Some v \<Rightarrow> if py_truthy v then Some f else first_alias raw fs
      | None \<Rightarrow> first_alias raw fs)"

text \<open>\<open>f in raw_data and raw_data[f]\<close> for one key.\<close>

definition present :: "pydict \<Rightarrow> string \<Rightarrow> bool" where
  "present raw f = (case map_of raw f of Some v \<Rightarrow> py_truthy v | None \<Rightarrow> False)"

text \<open>
  \<open>ETLXMLParser._extract_receiver\<close> returns \<open>str(receiver_field).strip()\<close>: the loop
  variable, which is the alias.
\<close>

definition extract_receiver :: "pydict \<Rightarrow> string" where
  "extract_receiver raw_data =
     (case first_alias raw_data [''receiver'', ''Receiver'', ''to''] of
        Some receiver_field \<Rightarrow> py_strip receiver_field
      | None \<Rightarrow> ''Unknown'')"

section \<open>Validation of a cleaned record\<close>

text \<open>
  \<open>DataCleaner._validate_transaction\<close>: the loop over the required fields returns
  \<open>False\<close> at the first field that is absent or falsy; then the sign of the amount and
  the two sentinels are looked at. Comparing a value that is no number with \<open>0\<close> raises.
\<close>

fun required_present :: "pydict \<Rightarrow> string list \<Rightarrow> bool" where
  "required_present t [] = True"
| "required_present t (f # fs) =
     (case map_of t f of
        None \<Rightarrow> False
      | Some v \<Rightarrow> if \<not> py_truthy v then False else required_present t fs)"

definition validate_transaction :: "pydict \<Rightarrow> exn + bool" where
  "validate_transaction t =
     (if \<not> required_present t [''Id'', ''amount'', ''sender'', ''receiver'', ''timestamp'']
      then Inr False
      else case py_lt_int (dict_get t ''amount'' VNone) 0 of
             Inl e \<Rightarrow> Inl e
           | Inr True \<Rightarrow> Inr False
           | Inr False \<Rightarrow>
               if dict_get t ''sender'' VNone = VStr ''Unknown''
                  \<and> dict_get t ''receiver'' VNone = VStr ''Unknown''
               then Inr False else Inr True)"

section \<open>Regular expressions as Python's \<open>re\<close> module matches them\<close>

text \<open>
  The tables of the source are regular expressions, matched by backtracking: a greedy
  quantifier takes as much as it can and gives back one repetition at a time, a lazy one
  takes as little as it can. \<open>rmatch\<close> returns, in that order of preference, what is left of
  the subject after each way of matching; the first complete way is the match Python
  reports. The flag is \<open>re.IGNORECASE\<close>.
\<close>

datatype cls = CDigit | CSpace | CAlpha | CWord | CChar char | COr cls cls

fun cls_mem :: "bool \<Rightarrow> cls \<Rightarrow> char \<Rightarrow> bool" where
  "cls_mem ic CDigit c = is_digit c"
| "cls_mem ic CSpace c = py_isspace c"
| "cls_mem ic CAlpha c = (is_upper c \<or> is_lower c)"
| "cls_mem ic CWord c = (is_upper c \<or> is_lower c \<or> is_digit c \<or> c = CHR ''_'')"
| "cls_mem ic (CChar d) c = (if ic then lower_char c = lower_char d else c = d)"
| "cls_mem ic (COr a b) c = (cls_mem ic a c \<or> cls_mem ic b c)"

datatype rx =
    Eps
  | Cls cls
  | Seq rx rx
  | Star rx
  | Plus rx
  | LazyPlus rx
  | Opt rx
  | Times nat rx
  | UpTo nat rx

text \<open>
  The repetitions, over the matcher of the repeated expression. A repetition that consumed
  nothing is not repeated again; the bound of \<open>star_iter\<close> and \<open>lazy_iter\<close> is the length of
  the subject, which no sequence of consuming repetitions exceeds.
\<close>

fun star_iter :: "(string \<Rightarrow> string list) \<Rightarrow> nat \<Rightarrow> string \<Rightarrow> string list" where
  "star_iter f 0 s = [s]"
| "star_iter f (Suc n) s =
     concat (map (\<lambda>s'. if length s' < length s then star_iter f n s' else []) (f s)) @ [s]"

fun lazy_iter :: "(string \<Rightarrow> string list) \<Rightarrow> nat \<Rightarrow> string \<Rightarrow> string list" where
  "lazy_iter f 0 s = [s]"
| "lazy_iter f (Suc n) s =
     s # concat (map (\<lambda>s'. if length s' < length s then lazy_iter f n s' else []) (f s))"

fun times_iter :: "(string \<Rightarrow> string list) \<Rightarrow> nat \<Rightarrow> string \<Rightarrow> string list" where
  "times_iter f 0 s = [s]"
| "times_iter f (Suc n) s = concat (map (times_iter f n) (f s))"

fun upto_iter :: "(string \<Rightarrow> string list) \<Rightarrow> nat \<Rightarrow> string \<Rightarrow> string list" where
  "upto_iter f 0 s = [s]"
| "upto_iter f (Suc n) s = concat (map (upto_iter f n) (f s)) @ [s]"

primrec rmatch :: "bool \<Rightarrow> rx \<Rightarrow> string \<Rightarrow> string list" where
  "rmatch ic Eps = (\<lambda>s. [s])"
| "rmatch ic (Cls k) = (\<lambda>s. case s of [] \<Rightarrow> [] | c # t \<Rightarrow> if cls_mem ic k c then [t] else [])"
| "rmatch ic (Seq a b) = (\<lambda>s. concat (map (rmatch ic b) (rmatch ic a s)))"
| "rmatch ic (Star r) = (\<lambda>s. star_iter (rmatch ic r) (length s) s)"
| "rmatch ic (Plus r) =
     (\<lambda>s. concat (map (\<lambda>s'. star_iter (rmatch ic r) (length s') s') (rmatch ic r s)))"
| "rmatch ic (LazyPlus r) =
     (\<lambda>s. concat (map (\<lambda>s'. lazy_iter (rmatch ic r) (length s') s') (rmatch ic r s)))"
| "rmatch ic (Opt r) = (\<lambda>s. rmatch ic r s @ [s])"
| "rmatch ic (Times n r) = (\<lambda>s. times_iter (rmatch ic r) n s)"
| "rmatch ic (UpTo n r) = (\<lambda>s. upto_iter (rmatch ic r) n s)"

text \<open>A literal text, and the shorthands of the tables.\<close>

fun lit :: "string \<Rightarrow> rx" where
  "lit [] = Eps"
| "lit (c # cs) = Seq (Cls (CChar c)) (lit cs)"

abbreviation digit :: rx where "digit \<equiv> Cls CDigit"
abbreviation space :: rx where "space \<equiv> Cls CSpace"

text \<open>
  A pattern is a sequence of pieces, each marked as a capturing group or not. A match is
  the list of the captured texts and the rest of the subject after the match.
\<close>

type_synonym pat = "(rx \<times> bool) list"

fun pmatch :: "bool \<Rightarrow> pat \<Rightarrow> string \<Rightarrow> (string list \<times> string) list" where
  "pmatch ic [] s = [([], s)]"
| "pmatch ic ((r, cap) # ps) s =
     concat (map (\<lambda>s'. map (\<lambda>(gs, rest).
                              ((if cap then [take (length s - length s') s] else []) @ gs, rest))
                           (pmatch ic ps s'))
                 (rmatch ic r s))"

text \<open>\<open>re.match\<close>: at the start of the subject. \<open>re.search\<close>: at the leftmost position.\<close>

definition re_match :: "bool \<Rightarrow> pat \<Rightarrow> string \<Rightarrow> (string list \<times> string) option" where
  "re_match ic p s = (case pmatch ic p s of [] \<Rightarrow> None | m # _ \<Rightarrow> Some m)"

fun re_search :: "bool \<Rightarrow> pat \<Rightarrow> string \<Rightarrow> (string list \<times> string) option" where
  "re_search ic p [] = re_match ic p []"
| "re_search ic p (c # s) =
     (case re_match ic p (c # s) of Some m \<Rightarrow> Some m | None \<Rightarrow> re_search ic p s)"

definition group1 :: "string list \<Rightarrow> string" where
  "group1 gs = (case gs of [] \<Rightarrow> [] | g # _ \<Rightarrow> g)"

text \<open>
  \<open>re.sub\<close> for a pattern that consumes at least one character: every leftmost match is
  replaced, the text between the matches is kept.
\<close>

function re_sub :: "pat \<Rightarrow> (string list \<Rightarrow> string) \<Rightarrow> string \<Rightarrow> string" where
  "re_sub p repl [] = []"
| "re_sub p repl (c # s) =
     (case re_match False p (c # s) of
        None \<Rightarrow> c # re_sub p repl s
      | Some (gs, rest) \<Rightarrow>
          if length rest \<le> length s then repl gs @ re_sub p repl rest
          else c # re_sub p repl s)"
  by pat_completeness auto
termination
  by (relation "measure (\<lambda>(p, repl, s). length s)") auto

declare re_sub.simps(2) [simp del]

section \<open>Phone numbers\<close>

text \<open>The table \<open>phone_patterns\<close>: a prefix, nine digits captured, rewritten to \<open>+250\1\<close>.\<close>

definition phone_pat :: "string \<Rightarrow> pat" where
  "phone_pat pre = [(lit pre, False), (Times 9 digit, True)]"

definition phone_repl :: "string list \<Rightarrow> string" where
  "phone_repl gs = ''+250'' @ group1 gs"

definition phone_patterns :: "(pat \<times> (string list \<Rightarrow> string)) list" where
  "phone_patterns =
     [(phone_pat ''+250'', phone_repl),
      (phone_pat ''250'', phone_repl),
      (phone_pat ''0'', phone_repl),
      (phone_pat '''', phone_repl)]"

text \<open>The subject starts with the prefix and nine digits.\<close>

definition has_phone_at :: "string \<Rightarrow> string \<Rightarrow> bool" where
  "has_phone_at pre s =
     (take (length pre) s = pre \<and> length pre + 9 \<le> length s
      \<and> list_all is_digit (take 9 (drop (length pre) s)))"

text \<open>The loop over the table: the first pattern that matches at the start rewrites, then \<open>break\<close>.\<close>

fun apply_phone_patterns :: "(pat \<times> (string list \<Rightarrow> string)) list \<Rightarrow> string \<Rightarrow> string" where
  "apply_phone_patterns [] phone = phone"
| "apply_phone_patterns ((p, r) # ps) phone =
     (if re_match False p phone \<noteq> None then re_sub p r phone
      else apply_phone_patterns ps phone)"

text \<open>The final check \<open>re.match(r"\+250\d{9}", phone)\<close>.\<close>

definition canonical_pat :: pat where
  "canonical_pat = [(Seq (lit ''+250'') (Times 9 digit), False)]"

text \<open>The canonical form in the words of the specification: \<open>+250\<close> and nine digits.\<close>

definition is_canonical_phone :: "string \<Rightarrow> bool" where
  "is_canonical_phone s =
     (length s = 13 \<and> take 4 s = ''+250'' \<and> list_all is_digit (drop 4 s))"

text \<open>\<open>DataCleaner._clean_phone_number\<close> on a string.\<close>

definition clean_phone_str :: "string \<Rightarrow> string" where
  "clean_phone_str phone =
     (if phone = [] \<or> py_strip phone = [] \<or> py_lower phone = ''unknown'' then ''Unknown''
      else let phone' = apply_phone_patterns phone_patterns (py_strip phone)
           in if re_match False canonical_pat phone' \<noteq> None then phone' else ''Unknown'')"

text \<open>
  On any value: a falsy value gives the sentinel before any method is called; a truthy
  value that is no string has no \<open>strip\<close>.
\<close>

definition no_attribute :: "pyval \<Rightarrow> string \<Rightarrow> exn" where
  "no_attribute v a = Exn AttributeError
     (py_type_name v @ '' object has no attribute '' @ a)"

definition clean_phone_number :: "pyval \<Rightarrow> exn + string" where
  "clean_phone_number phone =
     (if \<not> py_truthy phone then Inr ''Unknown''
      else case phone of
             VStr s \<Rightarrow> Inr (clean_phone_str s)
           | _ \<Rightarrow> Inl (no_attribute phone ''strip''))"

section \<open>Categorisation\<close>

text \<open>
  The tables of \<open>TransactionCategorizer\<close>, in the order in which the dictionaries are
  written and iterated. Every pattern of the two tables is a literal text (\<open>\*182\*\<close> is
  the text \<open>*182*\<close>), searched with \<open>re.IGNORECASE\<close>.
\<close>

definition categories :: "(int \<times> string \<times> string list \<times> string list) list" where
  "categories =
     [(1, ''Airtime Purchase'',
       [''airtime'', ''token'', ''*182*'', ''internet'', ''data bundle'', ''mobile data'',
        ''data package'', ''bundle'', ''units''],
       [''airtime'', ''token'', ''internet'', ''data'', ''bundle'', ''units'']),
      (2, ''Bill Payment'',
       [''bill payment'', ''utility'', ''electricity'', ''water'', ''rent'', ''insurance'',
        ''tax'', ''government'', ''council''],
       [''bill'', ''utility'', ''electricity'', ''water'', ''rent'', ''insurance'']),
      (3, ''Money Transfer'',
       [''transferred'', ''sent'', ''received'', ''mobile money'', ''momo'', ''transfer'',
        ''send money'', ''receive money'', ''payment to''],
       [''transfer'', ''send'', ''receive'', ''money'', ''payment'']),
      (4, ''School Fees'',
       [''school fees'', ''tuition'', ''education'', ''student'', ''university'', ''college'',
        ''academic'', ''learning'', ''school''],
       [''school'', ''tuition'', ''education'', ''student'', ''university'']),
      (5, ''Shopping'',
       [''payment'', ''purchase'', ''merchant'', ''shop'', ''buy'', ''store'', ''retail'',
        ''goods'', ''services'', ''pos''],
       [''payment'', ''purchase'', ''merchant'', ''shop'', ''buy''])]"

definition transaction_types :: "(string \<times> string list \<times> int \<times> rat) list" where
  "transaction_types =
     [(''DEPOSIT'',
       [''bank deposit'', ''cash deposit'', ''deposited'', ''added to your account''],
       3, 9 / 10),
      (''WITHDRAWAL'',
       [''withdrawal'', ''cash out'', ''withdrawn'', ''cash withdrawal''],
       3, 9 / 10),
      (''AIRTIME'',
       [''airtime'', ''token'', ''*182*'', ''internet''],
       1, 95 / 100),
      (''BILL_PAYMENT'',
       [''bill payment'', ''utility'', ''electricity'', ''water''],
       2, 9 / 10)]"

text \<open>\<open>re.search(pattern, sms_body, re.IGNORECASE)\<close> for a literal pattern.\<close>

definition lit_search :: "string \<Rightarrow> string \<Rightarrow> bool" where
  "lit_search p body = (re_search True [(lit p, False)] body \<noteq> None)"

text \<open>\<open>w in s\<close> on strings, and \<open>keyword.lower() in sms_body.lower()\<close>.\<close>

fun py_in :: "string \<Rightarrow> string \<Rightarrow> bool" where
  "py_in w [] = (w = [])"
| "py_in w (c # s) = (take (length w) (c # s) = w \<or> py_in w s)"

definition ci_in :: "string \<Rightarrow> string \<Rightarrow> bool" where
  "ci_in w s = py_in (py_lower w) (py_lower s)"

text \<open>
  Method 1 of \<open>_determine_category\<close>: the first type, in table order, one of whose patterns
  is found decides.
\<close>

fun first_signature ::
  "(string \<times> string list \<times> int \<times> rat) list \<Rightarrow> string \<Rightarrow> (int \<times> rat \<times> string) option" where
  "first_signature [] body = None"
| "first_signature ((txn_type, patterns, category_id, confidence) # ts) body =
     (if list_ex (\<lambda>p. lit_search p body) patterns
      then Some (category_id, confidence, ''transaction_type_'' @ txn_type)
      else first_signature ts body)"

text \<open>
  Method 2: a pattern found adds 1, a keyword found adds 0.5; a category with a hit gets
  the sum over the number of its patterns. The scores are a dictionary, kept in the order
  of insertion.
\<close>

definition count_hits :: "('a \<Rightarrow> bool) \<Rightarrow> 'a list \<Rightarrow> nat" where
  "count_hits P xs = length (filter P xs)"

definition category_score :: "string list \<Rightarrow> string list \<Rightarrow> string \<Rightarrow> rat option" where
  "category_score patterns keywords body =
     (let pm = count_hits (\<lambda>p. lit_search p body) patterns;
          km = count_hits (\<lambda>k. ci_in k body) keywords
      in if pm + km > 0
         then Some ((of_nat pm + of_nat km / 2) / of_nat (length patterns))
         else None)"

fun pattern_scores ::
  "(int \<times> string \<times> string list \<times> string list) list \<Rightarrow> string \<Rightarrow> (int \<times> rat) list" where
  "pattern_scores [] body = []"
| "pattern_scores ((category_id, name, patterns, keywords) # cs) body =
     (case category_score patterns keywords body of
        Some s \<Rightarrow> (category_id, s) # pattern_scores cs body
      | None \<Rightarrow> pattern_scores cs body)"

text \<open>\<open>_categorize_by_amount\<close>: comparing a value that is no number raises.\<close>

definition categorize_by_amount :: "pyval \<Rightarrow> exn + (int \<times> rat) option" where
  "categorize_by_amount amount =
     (case py_le_int amount 0 of
        Inl e \<Rightarrow> Inl e
      | Inr True \<Rightarrow> Inr None
      | Inr False \<Rightarrow>
          (case py_le_int amount 5000 of
             Inl e \<Rightarrow> Inl e
           | Inr True \<Rightarrow> Inr (Some (1, 3 / 10))
           | Inr False \<Rightarrow>
               (case py_ge_int amount 50000 of
                  Inl e \<Rightarrow> Inl e
                | Inr True \<Rightarrow> Inr (Some (4, 4 / 10))
                | Inr False \<Rightarrow> Inr None)))"

text \<open>\<open>_categorize_by_transaction_type\<close>, on the string it is called with.\<close>

definition type_mappings :: "(string \<times> int \<times> rat) list" where
  "type_mappings =
     [(''RECEIVE'', 3, 6 / 10), (''SEND'', 3, 6 / 10), (''DEPOSIT'', 3, 7 / 10),
      (''WITHDRAWAL'', 3, 7 / 10), (''PAYMENT'', 2, 5 / 10), (''PURCHASE'', 5, 5 / 10)]"

definition categorize_by_transaction_type :: "string \<Rightarrow> (int \<times> rat) option" where
  "categorize_by_transaction_type transaction_type =
     (if transaction_type = [] then None
      else map_of type_mappings (py_upper transaction_type))"

text \<open>\<open>if k in scores: scores[k] += v else: scores[k] = v\<close>.\<close>

definition bump :: "(int \<times> rat) list \<Rightarrow> int \<Rightarrow> rat \<Rightarrow> (int \<times> rat) list" where
  "bump scores k v =
     (case map_of scores k of
        Some s \<Rightarrow> dict_set scores k (s + v)
      | None \<Rightarrow> dict_set scores k v)"

text \<open>Methods 2 to 4: the dictionary \<open>category_scores\<close> before the resolution.\<close>

definition category_scores :: "string \<Rightarrow> string \<Rightarrow> pyval \<Rightarrow> exn + (int \<times> rat) list" where
  "category_scores body transaction_type amount =
     (let scores = pattern_scores categories body
      in case categorize_by_amount amount of
           Inl e \<Rightarrow> Inl e
         | Inr amount_category \<Rightarrow>
             (let scores' = (case amount_category of
                               Some (category_id, confidence) \<Rightarrow> bump scores category_id (2 / 10)
                             | None \<Rightarrow> scores)
              in Inr (case categorize_by_transaction_type transaction_type of
                        Some (category_id, confidence) \<Rightarrow> bump scores' category_id (1 / 10)
                      | None \<Rightarrow> scores')))"

text \<open>
  \<open>max(category_scores.items(), key=lambda x: x[1])\<close>: the items are visited in the order
  of the dictionary, and a later item replaces the best one only when its score is
  strictly greater.
\<close>

fun max_item :: "(int \<times> rat) \<Rightarrow> (int \<times> rat) list \<Rightarrow> (int \<times> rat)" where
  "max_item best [] = best"
| "max_item best (x # xs) = max_item (if snd best < snd x then x else best) xs"

text \<open>\<open>_determine_category\<close> on a string body; any other body makes \<open>re.search\<close> raise.\<close>

definition determine_category_str ::
  "string \<Rightarrow> string \<Rightarrow> pyval \<Rightarrow> exn + (int \<times> rat \<times> string)" where
  "determine_category_str sms_body transaction_type amount =
     (case first_signature transaction_types sms_body of
        Some r \<Rightarrow> Inr r
      | None \<Rightarrow>
          (case category_scores sms_body transaction_type amount of
             Inl e \<Rightarrow> Inl e
           | Inr [] \<Rightarrow> Inr (3, 1 / 10, ''default_fallback'')
           | Inr (x # xs) \<Rightarrow>
               (let (category_id, confidence) = max_item x xs
                in Inr (category_id, min confidence 1, ''pattern_matching''))))"

definition determine_category ::
  "pyval \<Rightarrow> string \<Rightarrow> pyval \<Rightarrow> exn + (int \<times> rat \<times> string)" where
  "determine_category sms_body transaction_type amount =
     (case sms_body of
        VStr b \<Rightarrow> determine_category_str b transaction_type amount
      | _ \<Rightarrow> Inl (Exn TypeError ''expected string or bytes-like object''))"

text \<open>
  \<open>_extract_additional_info\<close>: three lists of patterns tried in order. For the merchant
  and the location the captured text is stripped and must pass the length check, or the
  next pattern is tried; for the reference the first pattern found decides.
\<close>

fun seqs :: "rx list \<Rightarrow> rx" where
  "seqs [] = Eps"
| "seqs (r # rs) = Seq r (seqs rs)"

abbreviation letters_spaces :: rx where "letters_spaces \<equiv> Cls (COr CAlpha CSpace)"

definition iso_date_rx :: rx where
  "iso_date_rx = seqs [Times 4 digit, lit ''-'', Times 2 digit, lit ''-'', Times 2 digit]"

definition merchant_patterns :: "pat list" where
  "merchant_patterns =
     [[(seqs [lit ''to'', Plus space], False), (LazyPlus letters_spaces, True),
       (seqs [Plus space, Plus digit], False)],
      [(seqs [lit ''payment'', Plus space, lit ''to'', Plus space], False),
       (Plus letters_spaces, True)],
      [(Plus letters_spaces, True), (seqs [Plus space, Times 5 digit, Star digit], False)]]"

definition ref_patterns :: "pat list" where
  "ref_patterns =
     [[(seqs [lit ''TxId:'', Star space], False), (Plus digit, True)],
      [(seqs [lit ''Transaction'', Plus space, lit ''Id:'', Star space], False),
       (Plus digit, True)],
      [(seqs [lit ''Reference:'', Star space], False), (Plus (Cls CWord), True)],
      [(seqs [lit ''Ref:'', Star space], False), (Plus (Cls CWord), True)]]"

definition location_patterns :: "pat list" where
  "location_patterns =
     [[(seqs [lit ''at'', Plus space], False), (LazyPlus letters_spaces, True),
       (seqs [Plus space, iso_date_rx], False)],
      [(seqs [lit ''from'', Plus space], False), (LazyPlus letters_spaces, True),
       (seqs [Plus space, iso_date_rx], False)]]"

fun first_checked_capture :: "nat \<Rightarrow> nat \<Rightarrow> pat list \<Rightarrow> string \<Rightarrow> string option" where
  "first_checked_capture lo hi [] body = None"
| "first_checked_capture lo hi (p # ps) body =
     (case re_search True p body of
        None \<Rightarrow> first_checked_capture lo hi ps body
      | Some (gs, rest) \<Rightarrow>
          (let m = py_strip (group1 gs)
           in if lo < length m \<and> length m < hi then Some m
              else first_checked_capture lo hi ps body))"

fun first_capture :: "pat list \<Rightarrow> string \<Rightarrow> string option" where
  "first_capture [] body = None"
| "first_capture (p # ps) body =
     (case re_search True p body of
        None \<Rightarrow> first_capture ps body
      | Some (gs, rest) \<Rightarrow> Some (group1 gs))"

definition set_if :: "pydict \<Rightarrow> string \<Rightarrow> string option \<Rightarrow> pydict" where
  "set_if t k v = (case v of None \<Rightarrow> t | Some s \<Rightarrow> dict_set t k (VStr s))"

definition extract_additional_info :: "pydict \<Rightarrow> pyval \<Rightarrow> exn + pydict" where
  "extract_additional_info transaction sms_body =
     (case sms_body of
        VStr b \<Rightarrow>
          Inr (set_if
                (set_if
                  (set_if transaction ''merchant_name''
                     (first_checked_capture 2 50 merchant_patterns b))
                  ''reference_number'' (first_capture ref_patterns b))
                ''location'' (first_checked_capture 2 30 location_patterns b))
      | _ \<Rightarrow> Inl (Exn TypeError ''expected string or bytes-like object''))"

text \<open>\<open>self.categories[category_id]["name"]\<close>.\<close>

definition category_name :: "int \<Rightarrow> exn + string" where
  "category_name category_id =
     (case map_of categories category_id of
        Some (name, patterns, keywords) \<Rightarrow> Inr name
      | None \<Rightarrow> Inl (Exn KeyError ''category_id''))"

text \<open>
  \<open>categorize_transaction\<close>: the body of the \<open>try\<close>, then the handler, which writes the
  default category into the record it was given.
\<close>

definition categorize_try :: "pydict \<Rightarrow> exn + pydict" where
  "categorize_try transaction =
     (let sms_body = dict_get transaction ''body'' (VStr [])
      in case dict_get transaction ''transaction_type'' (VStr []) of
           VStr ty \<Rightarrow>
             (let transaction_type = py_upper ty;
                  amount = dict_get transaction ''amount'' (VInt 0)
              in case determine_category sms_body transaction_type amount of
                   Inl e \<Rightarrow> Inl e
                 | Inr (category_id, confidence, method) \<Rightarrow>
                     (case category_name category_id of
                        Inl e \<Rightarrow> Inl e
                      | Inr name \<Rightarrow>
                          extract_additional_info
                            (dict_set
                              (dict_set
                                (dict_set
                                  (dict_set transaction ''category_id'' (VInt category_id))
                                  ''category_name'' (VStr name))
                                ''categorization_confidence'' (VFloat (Fin confidence)))
                              ''categorization_method'' (VStr method))
                            sms_body))
         | v \<Rightarrow> Inl (no_attribute v ''upper''))"

definition error_fallback :: "pydict \<Rightarrow> pydict" where
  "error_fallback transaction =
     dict_set
       (dict_set
         (dict_set
           (dict_set transaction ''category_id'' (VInt 3))
           ''category_name'' (VStr ''Money Transfer''))
         ''categorization_confidence'' (VFloat (Fin 0)))
       ''categorization_method'' (VStr ''error_fallback'')"

definition categorize_transaction :: "pydict \<Rightarrow> pydict" where
  "categorize_transaction transaction =
     (case categorize_try transaction of
        Inr categorized \<Rightarrow> categorized
      | Inl e \<Rightarrow> error_fallback transaction)"

section \<open>Predicates used in the proofs\<close>

text \<open>Every key of the score dictionary is a category id and no score is negative.\<close>

definition scores_ok :: "(int \<times> rat) list \<Rightarrow> bool" where
  "scores_ok sc = (\<forall>(k, s) \<in> set sc. k \<in> {1, 2, 3, 4, 5} \<and> 0 \<le> s)"

section \<open>Properties of the alias lookups\<close>

lemma first_alias_mem: "first_alias raw fs = Some f \<Longrightarrow> f \<in> set fs"
  by (induction fs) (auto split: option.splits if_splits)

lemma first_alias_truthy:
  "first_alias raw fs = Some f \<Longrightarrow> \<exists>v. map_of raw f = Some v \<and> py_truthy v"
  by (induction fs) (auto split: option.splits if_splits)

lemma first_alias_None:
  "first_alias raw fs = None \<Longrightarrow> f \<in> set fs \<Longrightarrow> map_of raw f = Some v \<Longrightarrow> \<not> py_truthy v"
  by (induction fs) (auto split: option.splits if_splits)

lemma strip_receiver_aliases:
  "py_strip ''receiver'' = ''receiver''" "py_strip ''Receiver'' = ''Receiver''"
  "py_strip ''to'' = ''to''"
  by (simp_all add: py_strip_def py_isspace_def)


lemma first_alias_present:
  "first_alias raw (f # fs) = (if present raw f then Some f else first_alias raw fs)"
  by (simp add: present_def split: option.splits)

lemma first_alias_cong_present:
  "(\<And>f. f \<in> set fs \<Longrightarrow> present raw f = present raw' f)
   \<Longrightarrow> first_alias raw fs = first_alias raw' fs"
proof (induction fs)
  case Nil
  show ?case by simp
next
  case (Cons f fs)
  have "present raw f = present raw' f" using Cons.prems by simp
  moreover have "first_alias raw fs = first_alias raw' fs"
    using Cons.IH Cons.prems by simp
  ultimately show ?case by (simp only: first_alias_present)
qed

lemma extract_receiver_chain:
  "extract_receiver raw =
     (if present raw ''receiver'' then ''receiver''
      else if present raw ''Receiver'' then ''Receiver''
      else if present raw ''to'' then ''to''
      else ''Unknown'')"
  unfolding extract_receiver_def
  by (simp only: first_alias_present first_alias.simps(1))
     (simp add: strip_receiver_aliases)

text \<open>
  C10 (amended). \<open>ETLXMLParser._extract_receiver\<close> returns one of the four literal
  strings \<open>receiver\<close>, \<open>Receiver\<close>, \<open>to\<close>, \<open>Unknown\<close>: the name of the first alias key
  that is present with a non-empty value, and \<open>Unknown\<close> when there is none. The values
  stored under the keys play no part: two raw maps in which the same alias keys are
  present give the same result.
\<close>

theorem extract_receiver_returns_key_name:
  "extract_receiver raw \<in> {''receiver'', ''Receiver'', ''to'', ''Unknown''}
   \<and> extract_receiver raw =
       (if present raw ''receiver'' then ''receiver''
        else if present raw ''Receiver'' then ''Receiver''
        else if present raw ''to'' then ''to''
        else ''Unknown'')
   \<and> ((\<forall>f \<in> {''receiver'', ''Receiver'', ''to''}. present raw f = present raw' f)
        \<longrightarrow> extract_receiver raw = extract_receiver raw')"
proof (intro conjI impI)
  show "extract_receiver raw \<in> {''receiver'', ''Receiver'', ''to'', ''Unknown''}"
    by (simp add: extract_receiver_chain)
  show "extract_receiver raw =
       (if present raw ''receiver'' then ''receiver''
        else if present raw ''Receiver'' then ''Receiver''
        else if present raw ''to'' then ''to''
        else ''Unknown'')"
    by (rule extract_receiver_chain)
  assume "\<forall>f \<in> {''receiver'', ''Receiver'', ''to''}. present raw f = present raw' f"
  then have "first_alias raw [''receiver'', ''Receiver'', ''to'']
             = first_alias raw' [''receiver'', ''Receiver'', ''to'']"
    by (intro first_alias_cong_present) auto
  then show "extract_receiver raw = extract_receiver raw'"
    by (simp only: extract_receiver_def)
qed

theorem extract_receiver_returns_key_name_witness:
  "extract_receiver [(''Receiver'', VStr ''+250788654321'')] = ''Receiver''
   \<and> extract_receiver [(''Receiver'', VStr ''+250788654321'')]
       = extract_receiver [(''Receiver'', VStr ''0788000000'')]"
proof -
  have p: "\<forall>f \<in> {''receiver'', ''Receiver'', ''to''}.
             present [(''Receiver'', VStr ''+250788654321'')] f
             = present [(''Receiver'', VStr ''0788000000'')] f"
    by (simp add: present_def)
  note t = extract_receiver_returns_key_name
            [of "[(''Receiver'', VStr ''+250788654321'')]"
                "[(''Receiver'', VStr ''0788000000'')]"]
  from t have a: "extract_receiver [(''Receiver'', VStr ''+250788654321'')] = ''Receiver''"
    by (simp add: present_def)
  from t p have b: "extract_receiver [(''Receiver'', VStr ''+250788654321'')]
                    = extract_receiver [(''Receiver'', VStr ''0788000000'')]"
    by blast
  from a b show ?thesis by blast
qed

text \<open>
  C10 as stated also says that the result never equals the raw receiver value. A record
  whose receiver element holds the text \<open>receiver\<close> is returned its own value.
\<close>

theorem extract_receiver_equals_raw_value:
  "map_of [(''receiver'', VStr ''receiver'')] ''receiver''
     = Some (VStr (extract_receiver [(''receiver'', VStr ''receiver'')]))"
  by (simp add: extract_receiver_def py_strip_def py_isspace_def)

section \<open>Properties of validation\<close>

lemma required_present_iff:
  "required_present t fs = (\<forall>f \<in> set fs. present t f)"
  by (induction fs) (auto simp: present_def split: option.splits)

text \<open>What the code accepts: the truthiness test of the loop also rejects a zero amount.\<close>

lemma validate_transaction_True_iff:
  "validate_transaction t = Inr True \<longleftrightarrow>
     (\<forall>f \<in> {''Id'', ''amount'', ''sender'', ''receiver'', ''timestamp''}. present t f)
     \<and> py_lt_int (dict_get t ''amount'' VNone) 0 = Inr False
     \<and> \<not> (dict_get t ''sender'' VNone = VStr ''Unknown''
            \<and> dict_get t ''receiver'' VNone = VStr ''Unknown'')"
  unfolding validate_transaction_def required_present_iff
  by (auto split: sum.splits bool.splits)

text \<open>
  C6. The claim makes a record with amount exactly \<open>0.0\<close>, and every other condition
  met, valid. On the record below all five fields are present, the amount is not
  negative and the sender is a canonical phone number, and the code returns \<open>False\<close>:
  \<open>not transaction["amount"]\<close> holds for \<open>0.0\<close>.
\<close>

theorem validate_transaction_zero_amount:
  "validate_transaction
     [(''Id'', VStr ''TXN_1''), (''amount'', VFloat (Fin 0)),
      (''sender'', VStr ''+250788123456''), (''receiver'', VStr ''Unknown''),
      (''timestamp'', VStr ''2024-05-10T16:30:51'')] = Inr False
   \<and> py_lt_int (VFloat (Fin 0)) 0 = Inr False"
  by (simp add: validate_transaction_def py_lt_int_def)

section \<open>Properties of the matcher on the phone patterns\<close>

lemma times_iter_single:
  assumes "f [] = []" and "\<And>c t. f (c # t) = (if P c then [t] else [])"
  shows "times_iter f n s =
     (if n \<le> length s \<and> list_all P (take n s) then [drop n s] else [])"
proof (induction n arbitrary: s)
  case 0
  show ?case by simp
next
  case (Suc n)
  show ?case
  proof (cases s)
    case Nil
    then show ?thesis by (simp add: assms)
  next
    case (Cons c t)
    then show ?thesis using Suc.IH [of t] by (auto simp: assms)
  qed
qed

lemma times_iter_digit:
  "times_iter (case_list [] (\<lambda>c t. if is_digit c then [t] else [])) n s =
     (if n \<le> length s \<and> list_all is_digit (take n s) then [drop n s] else [])"
  by (rule times_iter_single) simp_all

lemma rmatch_lit:
  "rmatch False (lit w) s = (if take (length w) s = w then [drop (length w) s] else [])"
proof (induction w arbitrary: s)
  case Nil
  show ?case by simp
next
  case (Cons c w)
  show ?case
  proof (cases s)
    case Nil
    then show ?thesis by simp
  next
    case (Cons d t)
    then show ?thesis using Cons.IH [of t] by auto
  qed
qed

lemma re_match_phone_pat:
  "re_match False (phone_pat pre) s =
     (if has_phone_at pre s
      then Some ([take 9 (drop (length pre) s)], drop (length pre + 9) s) else None)"
  by (auto simp: re_match_def phone_pat_def rmatch_lit times_iter_digit has_phone_at_def
        add.commute)

lemma re_match_canonical:
  "re_match False canonical_pat s =
     (if has_phone_at ''+250'' s then Some ([], drop 13 s) else None)"
  by (auto simp: re_match_def canonical_pat_def rmatch_lit times_iter_digit has_phone_at_def
      simp del: lit.simps)

lemma Suc4: "Suc (Suc (Suc (Suc 0))) = 4"
  by simp

lemma re_match_phone_pat_250:
  "re_match False (phone_pat ''+250'') s =
     (if has_phone_at ''+250'' s then Some ([take 9 (drop 4 s)], drop 13 s) else None)"
  by (simp add: re_match_phone_pat Suc4)

lemma has_phone_at_250:
  "has_phone_at ''+250'' s \<longleftrightarrow>
     take 4 s = ''+250'' \<and> 13 \<le> length s \<and> list_all is_digit (take 9 (drop 4 s))"
  by (simp add: has_phone_at_def Suc4)

lemma split_13: "take 4 s @ take 9 (drop 4 s) @ drop 13 s = s"
proof -
  have "drop 13 s = drop 9 (drop 4 s)" by simp
  then have "take 9 (drop 4 s) @ drop 13 s = drop 4 s"
    by (simp only: append_take_drop_id)
  then show ?thesis by (simp only: append_take_drop_id)
qed

lemma re_sub_step:
  assumes "re_match False p s = Some (gs, rest)" and "length rest < length s"
  shows "re_sub p repl s = repl gs @ re_sub p repl rest"
proof (cases s)
  case Nil
  with assms show ?thesis by simp
next
  case (Cons c t)
  with assms show ?thesis by (simp add: re_sub.simps(2))
qed

lemma re_sub_skip:
  assumes "re_match False p (c # t) = None"
  shows "re_sub p repl (c # t) = c # re_sub p repl t"
  using assms by (simp add: re_sub.simps(2))

lemma re_sub_canonical_id: "re_sub (phone_pat ''+250'') phone_repl s = s"
proof (induction s rule: length_induct)
  case (1 s)
  show ?case
  proof (cases s)
    case Nil
    then show ?thesis by simp
  next
    case (Cons c t)
    show ?thesis
    proof (cases "has_phone_at ''+250'' s")
      case False
      then have "re_match False (phone_pat ''+250'') (c # t) = None"
        using Cons by (simp add: re_match_phone_pat_250)
      then have "re_sub (phone_pat ''+250'') phone_repl (c # t)
                 = c # re_sub (phone_pat ''+250'') phone_repl t"
        by (rule re_sub_skip)
      moreover have "re_sub (phone_pat ''+250'') phone_repl t = t"
        using 1 Cons by simp
      ultimately show ?thesis using Cons by simp
    next
      case True
      then have len: "13 \<le> length s" and pre: "take 4 s = ''+250''"
        by (simp_all add: has_phone_at_250)
      have m: "re_match False (phone_pat ''+250'') s = Some ([take 9 (drop 4 s)], drop 13 s)"
        using True by (simp add: re_match_phone_pat_250)
      have "re_sub (phone_pat ''+250'') phone_repl s
            = phone_repl [take 9 (drop 4 s)] @ re_sub (phone_pat ''+250'') phone_repl (drop 13 s)"
        using m len by (intro re_sub_step) simp_all
      also have "re_sub (phone_pat ''+250'') phone_repl (drop 13 s) = drop 13 s"
        using 1 len by simp
      also have "phone_repl [take 9 (drop 4 s)] @ drop 13 s
                 = take 4 s @ take 9 (drop 4 s) @ drop 13 s"
        by (simp add: phone_repl_def group1_def pre)
      also have "\<dots> = s" by (rule split_13)
      finally show ?thesis .
    qed
  qed
qed

section \<open>Properties of phone normalisation\<close>

lemma py_strip_id:
  assumes "s \<noteq> []" "\<not> py_isspace (hd s)" "\<not> py_isspace (last s)"
  shows "py_strip s = s"
proof -
  have a: "dropWhile py_isspace s = s"
    using assms by (cases s) simp_all
  have "rev s \<noteq> []" "\<not> py_isspace (hd (rev s))"
    using assms by (simp_all add: hd_rev)
  then have b: "dropWhile py_isspace (rev s) = rev s"
    by (cases "rev s") simp_all
  show ?thesis by (simp add: py_strip_def a b)
qed

lemma last_dropWhile_ne:
  "dropWhile P xs \<noteq> [] \<Longrightarrow> last (dropWhile P xs) = last xs"
  by (induction xs) (auto split: if_splits)

lemma py_strip_ends:
  assumes "py_strip s \<noteq> []"
  shows "\<not> py_isspace (hd (py_strip s))" and "\<not> py_isspace (last (py_strip s))"
proof -
  define u where "u = dropWhile py_isspace s"
  define v where "v = dropWhile py_isspace (rev u)"
  have st: "py_strip s = rev v" by (simp add: py_strip_def u_def v_def)
  have v: "v \<noteq> []" using assms st by simp
  then have u: "u \<noteq> []" by (auto simp: v_def)
  have "\<not> py_isspace (hd v)" using v unfolding v_def by (rule hd_dropWhile)
  then show "\<not> py_isspace (last (py_strip s))" using v by (simp add: st last_rev)
  have "last v = last (rev u)" using v unfolding v_def by (rule last_dropWhile_ne)
  also have "\<dots> = hd u" using u by (simp add: last_rev)
  finally have "last v = hd u" .
  moreover have "\<not> py_isspace (hd u)" using u unfolding u_def by (rule hd_dropWhile)
  ultimately show "\<not> py_isspace (hd (py_strip s))" using v by (simp add: st hd_rev)
qed

lemma re_sub_phone_last:
  "s \<noteq> [] \<Longrightarrow> re_sub (phone_pat pre) phone_repl s \<noteq> []
     \<and> last (re_sub (phone_pat pre) phone_repl s) = last s"
proof (induction s rule: length_induct)
  case (1 s)
  then obtain c t where Cons: "s = c # t" by (cases s) auto
  show ?case
  proof (cases "has_phone_at pre s")
    case False
    then have "re_match False (phone_pat pre) (c # t) = None"
      using Cons by (simp add: re_match_phone_pat)
    then have eq: "re_sub (phone_pat pre) phone_repl s = c # re_sub (phone_pat pre) phone_repl t"
      unfolding Cons by (rule re_sub_skip)
    show ?thesis
    proof (cases t)
      case Nil
      then show ?thesis using eq Cons by simp
    next
      case (Cons d t')
      then have ne: "t \<noteq> []" by simp
      have "length t < length s" using \<open>s = c # t\<close> by simp
      then have "re_sub (phone_pat pre) phone_repl t \<noteq> []
                 \<and> last (re_sub (phone_pat pre) phone_repl t) = last t"
        using 1 ne by blast
      then show ?thesis using eq \<open>s = c # t\<close> ne by simp
    qed
  next
    case True
    define g where "g = take 9 (drop (length pre) s)"
    define rest where "rest = drop (length pre + 9) s"
    have len: "length pre + 9 \<le> length s" using True by (simp add: has_phone_at_def)
    have lg: "length g = 9" using len by (simp add: g_def)
    have m: "re_match False (phone_pat pre) s = Some ([g], rest)"
      using True by (simp add: re_match_phone_pat g_def rest_def)
    have eq: "re_sub (phone_pat pre) phone_repl s
              = phone_repl [g] @ re_sub (phone_pat pre) phone_repl rest"
      using m len by (intro re_sub_step) (simp_all add: rest_def)
    have pr: "phone_repl [g] = ''+250'' @ g" by (simp add: phone_repl_def group1_def)
    show ?thesis
    proof (cases "rest = []")
      case True
      then have "length s = length pre + 9" using len by (simp add: rest_def)
      then have "g = drop (length pre) s" by (simp add: g_def)
      then have "last g = last s" using len by (simp add: last_drop)
      moreover have "g \<noteq> []" using lg by auto
      ultimately show ?thesis using eq pr True by simp
    next
      case False
      then have "length rest < length s" using len by (simp add: rest_def)
      then have ih: "re_sub (phone_pat pre) phone_repl rest \<noteq> []
                 \<and> last (re_sub (phone_pat pre) phone_repl rest) = last rest"
        using 1 False by simp
      have "last rest = last s" using False by (simp add: rest_def last_drop)
      then show ?thesis using eq ih by simp
    qed
  qed
qed

lemma re_sub_phone_head:
  assumes "has_phone_at pre s"
  shows "has_phone_at ''+250'' (re_sub (phone_pat pre) phone_repl s)"
proof -
  define g where "g = take 9 (drop (length pre) s)"
  define rest where "rest = drop (length pre + 9) s"
  have len: "length pre + 9 \<le> length s" and dg: "list_all is_digit g"
    using assms by (simp_all add: has_phone_at_def g_def)
  have lg: "length g = 9" using len by (simp add: g_def)
  have m: "re_match False (phone_pat pre) s = Some ([g], rest)"
    using assms by (simp add: re_match_phone_pat g_def rest_def)
  have eq: "re_sub (phone_pat pre) phone_repl s
            = ''+250'' @ g @ re_sub (phone_pat pre) phone_repl rest"
    using re_sub_step [OF m, of phone_repl] len
    by (simp add: rest_def phone_repl_def group1_def)
  show ?thesis unfolding eq using lg dg by (simp add: has_phone_at_250)
qed

lemma apply_phone_patterns_cases:
  "apply_phone_patterns phone_patterns s =
     (if has_phone_at ''+250'' s then re_sub (phone_pat ''+250'') phone_repl s
      else if has_phone_at ''250'' s then re_sub (phone_pat ''250'') phone_repl s
      else if has_phone_at ''0'' s then re_sub (phone_pat ''0'') phone_repl s
      else if has_phone_at '''' s then re_sub (phone_pat '''') phone_repl s
      else s)"
  by (simp add: phone_patterns_def re_match_phone_pat)

lemma apply_phone_patterns_result:
  assumes "s \<noteq> []" and "has_phone_at ''+250'' (apply_phone_patterns phone_patterns s)"
  shows "last (apply_phone_patterns phone_patterns s) = last s"
  using assms re_sub_phone_last [of s]
  by (auto simp: apply_phone_patterns_cases split: if_splits)

lemma lower_plus: "lower_char CHR ''+'' = CHR ''+''"
  by (simp add: lower_char_def is_upper_def)

lemma canonical_fixed:
  assumes c: "has_phone_at ''+250'' y" and l: "\<not> py_isspace (last y)"
  shows "clean_phone_str y = y"
proof -
  from c obtain t where y: "y = CHR ''+'' # t"
    by (cases y) (auto simp: has_phone_at_250)
  have ne: "y \<noteq> []" using y by simp
  have "\<not> py_isspace (hd y)" using y by (simp add: py_isspace_def)
  then have st: "py_strip y = y" using ne l by (intro py_strip_id) simp_all
  have lo: "py_lower y \<noteq> ''unknown''" using y by (simp add: py_lower_def lower_plus)
  have ap: "apply_phone_patterns phone_patterns y = y"
    using c by (simp add: apply_phone_patterns_cases re_sub_canonical_id)
  show ?thesis
    using ne st lo ap c by (simp add: clean_phone_str_def re_match_canonical)
qed

lemma clean_phone_Unknown: "clean_phone_str ''Unknown'' = ''Unknown''"
  by code_simp

lemma clean_phone_str_shape:
  "clean_phone_str x = ''Unknown''
   \<or> (has_phone_at ''+250'' (clean_phone_str x) \<and> \<not> py_isspace (last (clean_phone_str x)))"
proof (cases "x = [] \<or> py_strip x = [] \<or> py_lower x = ''unknown''")
  case True
  then show ?thesis by (auto simp: clean_phone_str_def)
next
  case False
  define y where "y = apply_phone_patterns phone_patterns (py_strip x)"
  show ?thesis
  proof (cases "has_phone_at ''+250'' y")
    case no: False
    then show ?thesis using False
      by (simp add: clean_phone_str_def re_match_canonical y_def Let_def)
  next
    case yes: True
    have r: "clean_phone_str x = y" using False yes
      by (simp add: clean_phone_str_def re_match_canonical y_def Let_def)
    have "last y = last (py_strip x)"
      using False yes unfolding y_def by (intro apply_phone_patterns_result) simp_all
    moreover have "\<not> py_isspace (last (py_strip x))"
      using False by (intro py_strip_ends) simp
    ultimately show ?thesis using r yes by simp
  qed
qed

lemma clean_phone_str_idem: "clean_phone_str (clean_phone_str x) = clean_phone_str x"
  using clean_phone_str_shape [of x] canonical_fixed clean_phone_Unknown by auto

text \<open>
  C5. The claim lets \<open>_clean_phone_number\<close> return only the sentinel or a canonical
  number, \<open>+250\<close> and nine digits. The final check is \<open>re.match\<close>, which looks at the
  start of the string only: a number with one digit too many is rewritten at its start and
  returned with the surplus digit, fourteen characters that are neither canonical nor the
  sentinel.
\<close>

theorem clean_phone_number_surplus_digit:
  "clean_phone_number (VStr ''07881234567'') = Inr ''+2507881234567''
   \<and> \<not> is_canonical_phone ''+2507881234567''
   \<and> ''+2507881234567'' \<noteq> ''Unknown''"
  by code_simp

end
